theory Spec2Isabelle
  imports Main
begin

section \<open>JavaScript values and strings\<close>

text \<open>
  The client is TypeScript; its types are erased at run time, so what \<open>JSON.parse\<close>
  returns and what \<open>streamQuery\<close> yields are plain JavaScript values. Numbers are
  carried as integers: no definition below computes with them, only their truthiness
  (\<open>0\<close> is falsy) is read. Strings are \<open>string\<close>, one \<open>char\<close> per code unit below
  \<open>0x100\<close>.
\<close>

datatype jsval =
    JUndefined
  | JNull
  | JBool bool
  | JNumber int
  | JString string
  | JArray "jsval list"
  | JObject "(string \<times> jsval) list"

text \<open>A value thrown by the platform or by the code: an \<open>Error\<close> with its message, or
  anything that is not an \<open>Error\<close>.\<close>

datatype thrown = JsError string | NonError

text \<open>\<open>v.k\<close>: reading a property. On \<open>undefined\<close> and \<open>null\<close> the read throws a
  \<open>TypeError\<close> (\<open>None\<close>); on an object without the key, and on arrays and primitives for a
  key such as \<open>type\<close>, \<open>content\<close> or \<open>sessionId\<close>, it gives \<open>undefined\<close>.\<close>

fun getProp :: "jsval \<Rightarrow> string \<Rightarrow> jsval option" where
  "getProp JUndefined k = None"
| "getProp JNull k = None"
| "getProp (JObject kvs) k = (case map_of kvs k of None \<Rightarrow> Some JUndefined | Some v \<Rightarrow> Some v)"
| "getProp v k = Some JUndefined"

text \<open>\<open>k in v\<close>, for a key that is no array index and no built-in property (the code asks
  for \<open>'sessionId'\<close> only): on an object, whether the key is there; on an array, false; on
  every primitive the operator throws a \<open>TypeError\<close> (\<open>None\<close>).\<close>

fun inOp :: "string \<Rightarrow> jsval \<Rightarrow> bool option" where
  "inOp k (JObject kvs) = Some (map_of kvs k \<noteq> None)"
| "inOp k (JArray vs) = Some False"
| "inOp k v = None"

text \<open>Truthiness, as \<open>!x\<close> and \<open>if (x)\<close> test it.\<close>

fun truthy :: "jsval \<Rightarrow> bool" where
  "truthy JUndefined = False"
| "truthy JNull = False"
| "truthy (JBool b) = b"
| "truthy (JNumber n) = (n \<noteq> 0)"
| "truthy (JString s) = (s \<noteq> [])"
| "truthy (JArray vs) = True"
| "truthy (JObject kvs) = True"

text \<open>The white space and line terminators that \<open>String.prototype.trim\<close> strips, as far as
  they are code units below \<open>0x100\<close>: tab, line feed, vertical tab, form feed, carriage
  return, space and no-break space.\<close>

definition isWhiteSpace :: "char \<Rightarrow> bool" where
  "isWhiteSpace c =
     (c = CHR 0x09 \<or> c = CHR 0x0A \<or> c = CHR 0x0B \<or> c = CHR 0x0C \<or> c = CHR 0x0D \<or>
      c = CHR 0x20 \<or> c = CHR 0xA0)"

definition trim :: "string \<Rightarrow> string" where
  "trim s = rev (dropWhile isWhiteSpace (rev (dropWhile isWhiteSpace s)))"

text \<open>\<open>s.split('\n')\<close>: the pieces between line feeds; never an empty array
  (\<open>''.split('\n')\<close> is \<open>['']\<close>).\<close>

fun split_newline :: "string \<Rightarrow> string list" where
  "split_newline [] = [[]]"
| "split_newline (c # cs) =
     (if c = CHR 0x0A then [] # split_newline cs
      else (case split_newline cs of
              [] \<Rightarrow> [[c]]
            | l # ls \<Rightarrow> (c # l) # ls))"

text \<open>\<open>buffer = lines.pop() || ''\<close>: the last element leaves the array; \<open>undefined\<close> (an
  empty array) and the empty string both give \<open>''\<close>.\<close>

definition pop :: "string list \<Rightarrow> string \<times> string list" where
  "pop lines = (if lines = [] then ([], []) else (last lines, butlast lines))"

section \<open>services/api.ts\<close>

text \<open>\<open>interface QueryRequest\<close>. \<open>max_results?: number | null\<close> is an optional property:
  \<open>None\<close> is the property left out, \<open>Some v\<close> the property with value \<open>v\<close>.\<close>

record QueryRequest =
  query :: string
  sessionId :: jsval
  max_results :: "jsval option"

text \<open>What \<open>reader.read()\<close> gives before the stream is done: a chunk of bytes, or a
  rejection. A response body is the list of these results; once the list is used up every
  further \<open>read()\<close> resolves with \<open>done\<close>.\<close>

datatype 'b readResult = Chunk "'b list" | ReadError thrown

text \<open>What \<open>fetch\<close> gives: a rejection, or a response with its status code and its body
  (\<open>None\<close> for a \<open>null\<close> body). \<open>response.ok\<close> is, by the Fetch standard, a status from
  200 to 299.\<close>

record 'b Response =
  statusCode :: nat
  body :: "'b readResult list option"

datatype 'b fetched = Rejected thrown | Resolved "'b Response"

definition ok :: "'b Response \<Rightarrow> bool" where
  "ok response = (200 \<le> statusCode response \<and> statusCode response \<le> 299)"

text \<open>How a run of generator code ends: it returns, it throws, or the fuel that bounds the
  iterations of \<open>while (true)\<close> is used up before it does either.\<close>

datatype outcome = Returned | Threw thrown | OutOfFuel

text \<open>A message of \<open>interface Message\<close> as the generator itself builds it.\<close>

definition mkMessage :: "string \<Rightarrow> string \<Rightarrow> jsval" where
  "mkMessage ty content = JObject [(''type'', JString ty), (''content'', JString content)]"

text \<open>
  The \<open>for (const line of lines)\<close> loop of \<open>streamQuery\<close> (lines 78 to 91), from the
  current \<open>currentSessionId\<close>: the values yielded, in order, and \<open>currentSessionId\<close> after
  the loop. \<open>parse\<close> is \<open>JSON.parse\<close>, with \<open>None\<close> for a \<open>SyntaxError\<close>. Every exception
  inside the \<open>try\<close> is swallowed by its \<open>catch\<close> and the loop goes on with the next line.
\<close>

fun forLines :: "(string \<Rightarrow> jsval option) \<Rightarrow> string list \<Rightarrow> jsval \<Rightarrow> jsval list \<times> jsval" where
  "forLines parse [] sid = ([], sid)"
| "forLines parse (line # lines) sid =
     (if trim line \<noteq> [] then
        (case parse line of
           None \<Rightarrow> forLines parse lines sid
         | Some message \<Rightarrow>
             (case inOp ''sessionId'' message of
                None \<Rightarrow> forLines parse lines sid
              | Some True \<Rightarrow>
                  (case getProp message ''sessionId'' of
                     None \<Rightarrow> forLines parse lines sid
                   | Some v \<Rightarrow> forLines parse lines v)
              | Some False \<Rightarrow>
                  (let (ys, sid') = forLines parse lines sid in (message # ys, sid'))))
      else forLines parse lines sid)"

text \<open>
  The \<open>while (true)\<close> loop (lines 54 to 92). \<open>decode\<close> is
  \<open>decoder.decode(value, {stream: true})\<close>: from the decoder's state and a chunk of bytes,
  the text decoded and the decoder's next state. One unit of fuel is one iteration. The
  arguments after the fuel are the decoder's state, what the reader still has, \<open>buffer\<close>
  and \<open>currentSessionId\<close>; the result is the values yielded, \<open>currentSessionId\<close> at the end,
  and how the loop ended.

  In the \<open>done\<close> branch, \<open>continue\<close> (line 63) goes back to \<open>while (true)\<close>: the next
  iteration reads again from the finished reader, with \<open>buffer\<close> as it was.
\<close>

fun streamLoop ::
  "(string \<Rightarrow> jsval option) \<Rightarrow> ('d \<Rightarrow> 'b list \<Rightarrow> string \<times> 'd) \<Rightarrow> nat \<Rightarrow> 'd \<Rightarrow>
   'b readResult list \<Rightarrow> string \<Rightarrow> jsval \<Rightarrow> jsval list \<times> jsval \<times> outcome" where
  "streamLoop parse decode 0 decoder reader buffer sid = ([], sid, OutOfFuel)"
| "streamLoop parse decode (Suc fuel) decoder [] buffer sid =
     (if buffer \<noteq> [] then
        (case parse buffer of
           None \<Rightarrow> ([], sid, Returned)
         | Some message \<Rightarrow>
             (case inOp ''sessionId'' message of
                None \<Rightarrow> ([], sid, Returned)
              | Some True \<Rightarrow>
                  (case getProp message ''sessionId'' of
                     None \<Rightarrow> ([], sid, Returned)
                   | Some v \<Rightarrow> streamLoop parse decode fuel decoder [] buffer v)
              | Some False \<Rightarrow> ([message], sid, Returned)))
      else ([], sid, Returned))"
| "streamLoop parse decode (Suc fuel) decoder (ReadError e # reader) buffer sid =
     ([], sid, Threw e)"
| "streamLoop parse decode (Suc fuel) decoder (Chunk val # reader) buffer sid =
     (let (txt, decoder') = decode decoder val;
          (buffer', lines) = pop (split_newline (buffer @ txt));
          (ys, sid') = forLines parse lines sid;
          (zs, sid'', out) = streamLoop parse decode fuel decoder' reader buffer' sid'
      in (ys @ zs, sid'', out))"

text \<open>What one call of \<open>streamQuery\<close> did: the request body it gave to \<open>fetch\<close>, the values
  it yielded, \<open>currentSessionId\<close> afterwards, and how the generator ended.\<close>

record Run =
  request :: QueryRequest
  yielded :: "jsval list"
  session :: jsval
  outcome :: outcome

text \<open>\<open>requestBody\<close> (lines 23 to 27).\<close>

definition requestBody :: "string \<Rightarrow> jsval \<Rightarrow> QueryRequest" where
  "requestBody q currentSessionId =
     \<lparr>query = trim q, sessionId = currentSessionId, max_results = Some JNull\<rparr>"

text \<open>The body of the outer \<open>try\<close> (lines 19 to 92), after \<open>fetch\<close> has settled.
  \<open>decoder0\<close> is the state of \<open>new TextDecoder()\<close>.\<close>

definition tryBody ::
  "(string \<Rightarrow> jsval option) \<Rightarrow> ('d \<Rightarrow> 'b list \<Rightarrow> string \<times> 'd) \<Rightarrow> 'd \<Rightarrow> nat \<Rightarrow>
   jsval \<Rightarrow> 'b fetched \<Rightarrow> jsval list \<times> jsval \<times> outcome" where
  "tryBody parse decode decoder0 fuel currentSessionId fetchResult =
     (case fetchResult of
        Rejected e \<Rightarrow> ([], currentSessionId, Threw e)
      | Resolved response \<Rightarrow>
          if \<not> ok response then
            (if statusCode response = 429 then
               ([mkMessage ''error''
                   ''Too many requests. Please wait a minute before trying again.''],
                currentSessionId, Returned)
             else ([], currentSessionId, Threw (JsError ''Network response was not ok'')))
          else
            (case body response of
               None \<Rightarrow> ([], currentSessionId, Threw (JsError ''Response body is null''))
             | Some reader \<Rightarrow>
                 streamLoop parse decode fuel decoder0 reader [] currentSessionId))"

text \<open>\<open>streamQuery\<close>: the outer \<open>try\<close> with its \<open>catch\<close> (lines 93 to 98), which yields one
  more message and lets the generator return.\<close>

definition streamQuery ::
  "(string \<Rightarrow> jsval option) \<Rightarrow> ('d \<Rightarrow> 'b list \<Rightarrow> string \<times> 'd) \<Rightarrow> 'd \<Rightarrow> nat \<Rightarrow>
   string \<Rightarrow> jsval \<Rightarrow> 'b fetched \<Rightarrow> Run" where
  "streamQuery parse decode decoder0 fuel q currentSessionId fetchResult =
     (case tryBody parse decode decoder0 fuel currentSessionId fetchResult of
        (ys, sid, Threw error) \<Rightarrow>
          \<lparr>request = requestBody q currentSessionId,
           yielded = ys @ [mkMessage ''error''
             (case error of JsError message \<Rightarrow> message
                          | NonError \<Rightarrow> ''An unknown error occurred'')],
           session = sid, outcome = Returned\<rparr>
      | (ys, sid, out) \<Rightarrow>
          \<lparr>request = requestBody q currentSessionId, yielded = ys, session = sid,
           outcome = out\<rparr>)"

text \<open>Calls of \<open>streamQuery\<close> one after the other, each given its fuel, its query and what
  \<open>fetch\<close> does: the module-level \<open>currentSessionId\<close> that one call leaves is what the
  next call starts from.\<close>

fun calls ::
  "(string \<Rightarrow> jsval option) \<Rightarrow> ('d \<Rightarrow> 'b list \<Rightarrow> string \<times> 'd) \<Rightarrow> 'd \<Rightarrow> jsval \<Rightarrow>
   (nat \<times> string \<times> 'b fetched) list \<Rightarrow> Run list" where
  "calls parse decode decoder0 currentSessionId [] = []"
| "calls parse decode decoder0 currentSessionId ((fuel, q, fetchResult) # rest) =
     (let run = streamQuery parse decode decoder0 fuel q currentSessionId fetchResult
      in run # calls parse decode decoder0 (session run) rest)"

section \<open>components/ChatInterface.tsx\<close>

text \<open>\<open>interface Message\<close> of the chat interface (the field \<open>text\<close> is \<open>text'\<close> here).
  \<open>status?: string\<close> is an optional property: \<open>None\<close> when the entry was built without
  it. The values come from \<open>message.content\<close> unchecked, hence \<open>jsval\<close>.\<close>

record Message =
  text' :: jsval
  isAI :: bool
  status :: "jsval option"

text \<open>The component's state: the three \<open>useState\<close> cells.\<close>

record ChatState =
  messages :: "Message list"
  input :: string
  isLoading :: bool

text \<open>\<open>msg.status\<close>: \<open>undefined\<close> when the property is not there.\<close>

definition statusOf :: "Message \<Rightarrow> jsval" where
  "statusOf msg = (case status msg of None \<Rightarrow> JUndefined | Some v \<Rightarrow> v)"

text \<open>\<open>prev.filter((msg) => !msg.status)\<close>.\<close>

definition withoutStatus :: "Message list \<Rightarrow> Message list" where
  "withoutStatus prev = filter (\<lambda>msg. \<not> truthy (statusOf msg)) prev"

text \<open>An entry shown as a status: \<open>msg.status\<close> is truthy, the test of the filter above
  and of \<open>if (status)\<close> in \<open>ChatMessage\<close>.\<close>

definition hasStatus :: "Message \<Rightarrow> bool" where
  "hasStatus msg = truthy (statusOf msg)"

text \<open>
  The body of the \<open>for await\<close> loop (lines 70 to 82) as the update it makes to \<open>messages\<close>;
  \<open>None\<close> when reading \<open>message.type\<close> throws. \<open>toStr\<close> is the string conversion of the
  template literal \<open>`Error: ${message.content}`\<close>.
\<close>

definition handleMessage :: "(jsval \<Rightarrow> string) \<Rightarrow> jsval \<Rightarrow> Message list \<Rightarrow> Message list option" where
  "handleMessage toStr message prev =
     (case getProp message ''type'' of
        None \<Rightarrow> None
      | Some ty \<Rightarrow>
          (case getProp message ''content'' of
             None \<Rightarrow> None
           | Some content \<Rightarrow>
               Some (if ty = JString ''status'' then
                       withoutStatus prev @ [\<lparr>text' = JString [], isAI = True, status = Some content\<rparr>]
                     else if ty = JString ''content'' then
                       withoutStatus prev @ [\<lparr>text' = content, isAI = True, status = None\<rparr>]
                     else if ty = JString ''error'' then
                       withoutStatus prev @
                         [\<lparr>text' = JString (''Error: '' @ toStr content), isAI = True, status = None\<rparr>]
                     else prev)))"

text \<open>The \<open>catch\<close> branch of \<open>handleSubmit\<close> (lines 85 to 88).\<close>

definition catchBranch :: "Message list \<Rightarrow> Message list" where
  "catchBranch prev =
     withoutStatus prev @
       [\<lparr>text' = JString ''An error occurred while processing your request.'', isAI = True,
         status = None\<rparr>]"

text \<open>The \<open>for await\<close> loop over the values the generator yields: \<open>messages\<close> afterwards,
  and whether the loop body got through all of them without throwing.\<close>

fun forAwait :: "(jsval \<Rightarrow> string) \<Rightarrow> jsval list \<Rightarrow> Message list \<Rightarrow> Message list \<times> bool" where
  "forAwait toStr [] prev = (prev, True)"
| "forAwait toStr (message # rest) prev =
     (case handleMessage toStr message prev of
        None \<Rightarrow> (prev, False)
      | Some prev' \<Rightarrow> forAwait toStr rest prev')"

text \<open>\<open>!input.trim() || isLoading\<close> (line 57).\<close>

definition guard :: "ChatState \<Rightarrow> bool" where
  "guard st = (trim (input st) = [] \<or> isLoading st)"

text \<open>
  Lines 59 to 62: the user's entry is appended, the input cleared, \<open>isLoading\<close> set. The
  entry's text is the \<open>input\<close> that the handler's render captured (the first argument);
  the three setters act on the state as it is when they are applied (the second).
\<close>

definition beginSubmit :: "ChatState \<Rightarrow> ChatState \<Rightarrow> ChatState" where
  "beginSubmit render st =
     st\<lparr>messages := messages st @ [\<lparr>text' = JString (input render), isAI = False, status = None\<rparr>],
        input := [], isLoading := True\<rparr>"

text \<open>
  What one call of \<open>handleSubmit\<close> did: the component's state afterwards, the call of
  \<open>streamQuery\<close> it made (\<open>None\<close> when it made none), and whether it came to its end (it
  does not when the generator never finishes). When the loop body throws, the loop is
  left, and the \<open>catch\<close> and \<open>finally\<close> blocks run; so they do when the generator
  throws.
\<close>

record Submitted =
  chat :: ChatState
  call :: "Run option"
  settled :: bool

definition handleSubmit ::
  "(string \<Rightarrow> jsval option) \<Rightarrow> ('d \<Rightarrow> 'b list \<Rightarrow> string \<times> 'd) \<Rightarrow> 'd \<Rightarrow> (jsval \<Rightarrow> string) \<Rightarrow>
   nat \<Rightarrow> ChatState \<Rightarrow> jsval \<Rightarrow> 'b fetched \<Rightarrow> Submitted" where
  "handleSubmit parse decode decoder0 toStr fuel st currentSessionId fetchResult =
     (if guard st then
        \<lparr>chat = st, call = None, settled = True\<rparr>
      else
        (let st1 = beginSubmit st st;
             run = streamQuery parse decode decoder0 fuel (input st) currentSessionId fetchResult;
             (msgs, through) = forAwait toStr (yielded run) (messages st1)
         in if \<not> through then
              \<lparr>chat = st1\<lparr>messages := catchBranch msgs, isLoading := False\<rparr>,
               call = Some run, settled = True\<rparr>
            else
              (case outcome run of
                 Returned \<Rightarrow>
                   \<lparr>chat = st1\<lparr>messages := msgs, isLoading := False\<rparr>,
                    call = Some run, settled = True\<rparr>
               | Threw e \<Rightarrow>
                   \<lparr>chat = st1\<lparr>messages := catchBranch msgs, isLoading := False\<rparr>,
                    call = Some run, settled = True\<rparr>
               | OutOfFuel \<Rightarrow>
                   \<lparr>chat = st1\<lparr>messages := msgs\<rparr>,
                    call = Some run, settled = False\<rparr>)))"








section \<open>The stream, line by line\<close>

text \<open>
  The spec speaks of the lines of the response text: a stream of newline-delimited JSON
  objects. These definitions say, in its words, what each line is expected to do; the
  theorems compare them with the loops above. A line either does nothing, or carries a
  value for the consumer, or carries a session identifier.
\<close>

datatype effect = Skip | Yield jsval | Store jsval

definition carried :: "(string \<Rightarrow> jsval option) \<Rightarrow> string \<Rightarrow> effect" where
  "carried parse l =
     (case parse l of
        None \<Rightarrow> Skip
      | Some message \<Rightarrow>
          (case inOp ''sessionId'' message of
             None \<Rightarrow> Skip
           | Some True \<Rightarrow> (case getProp message ''sessionId'' of None \<Rightarrow> Skip | Some v \<Rightarrow> Store v)
           | Some False \<Rightarrow> Yield message))"

text \<open>A line that a line feed ends counts when it is more than white space; the text after
  the last line feed counts when it is not empty.\<close>

definition lineEffect :: "(string \<Rightarrow> jsval option) \<Rightarrow> string \<Rightarrow> effect" where
  "lineEffect parse l = (if trim l = [] then Skip else carried parse l)"

definition lastEffect :: "(string \<Rightarrow> jsval option) \<Rightarrow> string \<Rightarrow> effect" where
  "lastEffect parse l = (if l = [] then Skip else carried parse l)"

definition completeLines :: "(string \<Rightarrow> jsval option) \<Rightarrow> string \<Rightarrow> effect list" where
  "completeLines parse txt = map (lineEffect parse) (butlast (split_newline txt))"

definition streamEffects :: "(string \<Rightarrow> jsval option) \<Rightarrow> string \<Rightarrow> effect list" where
  "streamEffects parse txt =
     completeLines parse txt @ [lastEffect parse (last (split_newline txt))]"

text \<open>The values carried for the consumer, in the order of their lines, and the identifier
  carried last (the one given when no line carries any).\<close>

fun yieldsOf :: "effect list \<Rightarrow> jsval list" where
  "yieldsOf [] = []"
| "yieldsOf (Yield message # es) = message # yieldsOf es"
| "yieldsOf (e # es) = yieldsOf es"

fun storedAfter :: "jsval \<Rightarrow> effect list \<Rightarrow> jsval" where
  "storedAfter sid [] = sid"
| "storedAfter sid (Store v # es) = storedAfter v es"
| "storedAfter sid (e # es) = storedAfter sid es"

text \<open>A typed message: an object whose \<open>type\<close> is one of the three of \<open>interface Message\<close>.\<close>

definition typed :: "jsval \<Rightarrow> bool" where
  "typed message =
     (getProp message ''type'' = Some (JString ''status'') \<or>
      getProp message ''type'' = Some (JString ''content'') \<or>
      getProp message ''type'' = Some (JString ''error''))"

text \<open>
  A streaming decoder: an empty chunk decodes to nothing, and decoding a chunk in two
  pieces gives the text of the whole, piece by piece (bytes of a character cut in two
  wait in the decoder's state). This is what \<open>TextDecoder\<close> promises for
  \<open>decode(value, {stream: true})\<close>.
\<close>

definition streaming :: "('d \<Rightarrow> 'b list \<Rightarrow> string \<times> 'd) \<Rightarrow> bool" where
  "streaming decode =
     ((\<forall>d. decode d [] = ([], d)) \<and>
      (\<forall>d a b. decode d (a @ b) =
         (case decode d a of (t1, d1) \<Rightarrow> (case decode d1 b of (t2, d2) \<Rightarrow> (t1 @ t2, d2)))))"

text \<open>The text of a list of chunks, decoded one after the other.\<close>

fun decodeChunks :: "('d \<Rightarrow> 'b list \<Rightarrow> string \<times> 'd) \<Rightarrow> 'd \<Rightarrow> 'b list list \<Rightarrow> string" where
  "decodeChunks decode d [] = []"
| "decodeChunks decode d (c # cs) =
     (case decode d c of (t, d') \<Rightarrow> t @ decodeChunks decode d' cs)"

text \<open>What a reader holds: the chunks it gives before its first rejection, and that
  rejection (\<open>None\<close> when it gives all its chunks and is done).\<close>

fun chunksBefore :: "'b readResult list \<Rightarrow> 'b list list" where
  "chunksBefore [] = []"
| "chunksBefore (Chunk c # reader) = c # chunksBefore reader"
| "chunksBefore (ReadError e # reader) = []"

fun readError :: "'b readResult list \<Rightarrow> thrown option" where
  "readError [] = None"
| "readError (Chunk c # reader) = readError reader"
| "readError (ReadError e # reader) = Some e"

text \<open>The failures of a request: \<open>fetch\<close> rejects, the status is not ok, the body is
  \<open>null\<close>, or a \<open>read()\<close> rejects.\<close>

definition failure :: "'b fetched \<Rightarrow> bool" where
  "failure fetchResult =
     (case fetchResult of
        Rejected e \<Rightarrow> True
      | Resolved response \<Rightarrow>
          (if ok response then
             (case body response of None \<Rightarrow> True | Some reader \<Rightarrow> readError reader \<noteq> None)
           else True))"

text \<open>The number of chunks the body gives before it is done or fails (0 without a body):
  one iteration more than this ends the loop, if it ends.\<close>

definition chunkCount :: "'b fetched \<Rightarrow> nat" where
  "chunkCount fetchResult =
     (case fetchResult of
        Rejected e \<Rightarrow> 0
      | Resolved response \<Rightarrow>
          (case body response of None \<Rightarrow> 0 | Some reader \<Rightarrow> length (chunksBefore reader)))"

section \<open>Concrete inputs\<close>

text \<open>
  Instances of the platform's functions for the closed theorems. \<open>asciiDecode\<close> is
  \<open>TextDecoder\<close> on ASCII bytes, where UTF-8 decoding changes nothing and keeps no state.
  \<open>sampleParse\<close> is \<open>JSON.parse\<close> on the lines the closed theorems use.
  \<open>sampleToString\<close> is the string conversion on strings.
\<close>

definition asciiDecode :: "unit \<Rightarrow> char list \<Rightarrow> string \<times> unit" where
  "asciiDecode d bytes = (bytes, d)"

definition sampleParse :: "string \<Rightarrow> jsval option" where
  \<open>sampleParse s =
     (if s = ''{"sessionId":"abc"}'' then Some (JObject [(''sessionId'', JString ''abc'')])
      else if s = ''{"type":"status","content":"Searching"}'' then
        Some (JObject [(''type'', JString ''status''), (''content'', JString ''Searching'')])
      else if s = ''{"type":"content","content":"Done"}'' then
        Some (JObject [(''type'', JString ''content''), (''content'', JString ''Done'')])
      else if s = ''42'' then Some (JNumber 42)
      else None)\<close>

definition sampleToString :: "jsval \<Rightarrow> string" where
  "sampleToString v = (case v of JString s \<Rightarrow> s | _ \<Rightarrow> ''[object Object]'')"

section \<open>Lines and chunks\<close>

lemma split_newline_not_Nil: "split_newline s \<noteq> []"
  by (induction s) (auto split: list.splits)

lemma split_newline_append:
  "split_newline (a @ b) =
     butlast (split_newline a) @ split_newline (last (split_newline a) @ b)"
proof (induction a)
  case Nil
  show ?case by simp
next
  case (Cons c a)
  obtain l ls where sa: "split_newline a = l # ls"
    using split_newline_not_Nil [of a] by (cases "split_newline a") auto
  show ?case
  proof (cases "ls = []")
    case True
    with Cons sa show ?thesis by (auto split: list.splits)
  next
    case False
    with Cons sa show ?thesis by (auto split: list.splits)
  qed
qed

text \<open>What a line carries, read off the value it parses to.\<close>

lemma carried_Store:
  "(carried parse l = Store v) =
     (\<exists>kvs. parse l = Some (JObject kvs) \<and> map_of kvs ''sessionId'' = Some v)"
proof (cases "parse l")
  case None
  then show ?thesis by (simp add: carried_def)
next
  case (Some message)
  then show ?thesis
    by (cases message) (auto simp: carried_def split: option.splits)
qed

lemma carried_Yield:
  "(carried parse l = Yield message) =
     (parse l = Some message \<and> inOp ''sessionId'' message = Some False)"
  by (auto simp: carried_def split: option.splits bool.splits)

lemma forLines_effects:
  "forLines parse ls sid =
     (yieldsOf (map (lineEffect parse) ls), storedAfter sid (map (lineEffect parse) ls))"
  by (induction ls arbitrary: sid)
     (auto simp: lineEffect_def carried_def split: option.splits bool.splits)

lemma yieldsOf_append: "yieldsOf (xs @ ys) = yieldsOf xs @ yieldsOf ys"
  by (induction xs rule: yieldsOf.induct) auto

lemma storedAfter_append: "storedAfter sid (xs @ ys) = storedAfter (storedAfter sid xs) ys"
  by (induction sid xs rule: storedAfter.induct) auto

text \<open>The \<open>done\<close> branch: with a stored identifier the loop goes round for as long as
  there is fuel.\<close>

lemma streamLoop_done:
  "streamLoop parse decode (Suc n) d [] buffer sid =
     (yieldsOf [lastEffect parse buffer], storedAfter sid [lastEffect parse buffer],
      (case lastEffect parse buffer of Store v \<Rightarrow> OutOfFuel | _ \<Rightarrow> Returned))"
proof (induction n arbitrary: sid)
  case 0
  show ?case
    by (auto simp: lastEffect_def carried_def split: option.splits bool.splits)
next
  case (Suc n)
  show ?case
    apply (subst streamLoop.simps(2))
    apply (auto simp: Suc.IH lastEffect_def carried_def simp del: streamLoop.simps
                split: option.splits bool.splits)
    done
qed


lemma butlast_split_newline_append:
  "butlast (split_newline (a @ b)) =
     butlast (split_newline a) @ butlast (split_newline (last (split_newline a) @ b))"
  by (subst split_newline_append) (simp add: butlast_append split_newline_not_Nil)

lemma last_split_newline_append:
  "last (split_newline (a @ b)) = last (split_newline (last (split_newline a) @ b))"
  by (subst split_newline_append) (simp add: split_newline_not_Nil)

lemma completeLines_append:
  "completeLines parse (a @ b) =
     completeLines parse a @ completeLines parse (last (split_newline a) @ b)"
  unfolding completeLines_def
  by (subst butlast_split_newline_append) simp

lemma streamEffects_append:
  "streamEffects parse (a @ b) =
     completeLines parse a @ streamEffects parse (last (split_newline a) @ b)"
  unfolding streamEffects_def
  by (subst completeLines_append, subst last_split_newline_append) simp

lemma pop_split_newline:
  "pop (split_newline s) = (last (split_newline s), butlast (split_newline s))"
  by (simp add: pop_def split_newline_not_Nil)


lemma split_newline_no_newline: "CHR 0x0A \<notin> set s \<Longrightarrow> split_newline s = [s]"
  by (induction s) auto

lemma last_split_newline_no_newline: "CHR 0x0A \<notin> set (last (split_newline s))"
proof (induction s)
  case Nil
  show ?case by simp
next
  case (Cons c s)
  then show ?case
    using split_newline_not_Nil [of s] by (auto split: list.splits)
qed

lemma streamLoop_Chunk:
  "streamLoop parse decode (Suc n) d (Chunk c # r) buffer sid =
     (case decode d c of (t, d') \<Rightarrow>
        (case streamLoop parse decode n d' r (last (split_newline (buffer @ t)))
                (storedAfter sid (completeLines parse (buffer @ t))) of
           (zs, sid2, out) \<Rightarrow> (yieldsOf (completeLines parse (buffer @ t)) @ zs, sid2, out)))"
  by (simp add: pop_split_newline forLines_effects completeLines_def split: prod.splits)

lemma streamLoop_reader:
  "length (chunksBefore reader) < fuel \<Longrightarrow> CHR 0x0A \<notin> set buffer \<Longrightarrow>
   streamLoop parse decode fuel d reader buffer sid =
     (case readError reader of
        None \<Rightarrow>
          (yieldsOf (streamEffects parse (buffer @ decodeChunks decode d (chunksBefore reader))),
           storedAfter sid (streamEffects parse (buffer @ decodeChunks decode d (chunksBefore reader))),
           (case lastEffect parse
                   (last (split_newline (buffer @ decodeChunks decode d (chunksBefore reader)))) of
              Store v \<Rightarrow> OutOfFuel | _ \<Rightarrow> Returned))
      | Some e \<Rightarrow>
          (yieldsOf (completeLines parse (buffer @ decodeChunks decode d (chunksBefore reader))),
           storedAfter sid (completeLines parse (buffer @ decodeChunks decode d (chunksBefore reader))),
           Threw e))"
proof (induction reader arbitrary: fuel d buffer sid rule: chunksBefore.induct)
  case 1
  then obtain n where "fuel = Suc n" by (cases fuel) auto
  with 1 show ?case
    by (simp add: streamLoop_done streamEffects_def completeLines_def split_newline_no_newline
             del: streamLoop.simps)
next
  case (2 c reader)
  then obtain n where n: "fuel = Suc n" and len: "length (chunksBefore reader) < n"
    by (cases fuel) auto
  obtain t d' where dec: "decode d c = (t, d')" by (cases "decode d c")
  have assoc: "buffer @ t @ decodeChunks decode d' (chunksBefore reader) =
      (buffer @ t) @ decodeChunks decode d' (chunksBefore reader)"
    by simp
  have ih: "streamLoop parse decode n d' reader (last (split_newline (buffer @ t)))
       (storedAfter sid (completeLines parse (buffer @ t))) =
     (case readError reader of
        None \<Rightarrow>
          (yieldsOf (streamEffects parse (last (split_newline (buffer @ t)) @
              decodeChunks decode d' (chunksBefore reader))),
           storedAfter (storedAfter sid (completeLines parse (buffer @ t)))
             (streamEffects parse (last (split_newline (buffer @ t)) @
              decodeChunks decode d' (chunksBefore reader))),
           (case lastEffect parse (last (split_newline (last (split_newline (buffer @ t)) @
                   decodeChunks decode d' (chunksBefore reader)))) of
              Store v \<Rightarrow> OutOfFuel | _ \<Rightarrow> Returned))
      | Some e \<Rightarrow>
          (yieldsOf (completeLines parse (last (split_newline (buffer @ t)) @
              decodeChunks decode d' (chunksBefore reader))),
           storedAfter (storedAfter sid (completeLines parse (buffer @ t)))
             (completeLines parse (last (split_newline (buffer @ t)) @
              decodeChunks decode d' (chunksBefore reader))),
           Threw e))"
    by (rule "2.IH" [OF len last_split_newline_no_newline])
  show ?case
  proof (cases "readError reader")
    case None
    have "streamLoop parse decode fuel d (Chunk c # reader) buffer sid =
      (yieldsOf (completeLines parse (buffer @ t)) @
         yieldsOf (streamEffects parse (last (split_newline (buffer @ t)) @
            decodeChunks decode d' (chunksBefore reader))),
       storedAfter (storedAfter sid (completeLines parse (buffer @ t)))
         (streamEffects parse (last (split_newline (buffer @ t)) @
            decodeChunks decode d' (chunksBefore reader))),
       (case lastEffect parse (last (split_newline (last (split_newline (buffer @ t)) @
            decodeChunks decode d' (chunksBefore reader)))) of
          Store v \<Rightarrow> OutOfFuel | _ \<Rightarrow> Returned))"
      unfolding n by (simp add: streamLoop_Chunk dec ih None del: streamLoop.simps)
    also have "\<dots> =
      (yieldsOf (streamEffects parse (buffer @ decodeChunks decode d (chunksBefore (Chunk c # reader)))),
       storedAfter sid (streamEffects parse (buffer @ decodeChunks decode d (chunksBefore (Chunk c # reader)))),
       (case lastEffect parse (last (split_newline
            (buffer @ decodeChunks decode d (chunksBefore (Chunk c # reader))))) of
          Store v \<Rightarrow> OutOfFuel | _ \<Rightarrow> Returned))"
      by (simp only: chunksBefore.simps decodeChunks.simps dec prod.case assoc
            streamEffects_append [of parse "buffer @ t"]
            last_split_newline_append [of "buffer @ t"] yieldsOf_append storedAfter_append)
    finally show ?thesis by (simp add: None)
  next
    case (Some e)
    have "streamLoop parse decode fuel d (Chunk c # reader) buffer sid =
      (yieldsOf (completeLines parse (buffer @ t)) @
         yieldsOf (completeLines parse (last (split_newline (buffer @ t)) @
            decodeChunks decode d' (chunksBefore reader))),
       storedAfter (storedAfter sid (completeLines parse (buffer @ t)))
         (completeLines parse (last (split_newline (buffer @ t)) @
            decodeChunks decode d' (chunksBefore reader))),
       Threw e)"
      unfolding n by (simp add: streamLoop_Chunk dec ih Some del: streamLoop.simps)
    also have "\<dots> =
      (yieldsOf (completeLines parse (buffer @ decodeChunks decode d (chunksBefore (Chunk c # reader)))),
       storedAfter sid (completeLines parse (buffer @ decodeChunks decode d (chunksBefore (Chunk c # reader)))),
       Threw e)"
      by (simp only: chunksBefore.simps decodeChunks.simps dec prod.case assoc
            completeLines_append [of parse "buffer @ t"] yieldsOf_append storedAfter_append)
    finally show ?thesis by (simp add: Some)
  qed
next
  case (3 e reader)
  then obtain n where n: "fuel = Suc n" by (cases fuel) auto
  show ?case unfolding n by (simp add: completeLines_def split_newline_no_newline 3)
qed

lemma chunksBefore_map_Chunk: "chunksBefore (map Chunk cs) = cs"
  by (induction cs) auto

lemma readError_map_Chunk: "readError (map Chunk cs) = None"
  by (induction cs) auto

lemma decodeChunks_concat:
  assumes "streaming decode"
  shows "decodeChunks decode d cs = fst (decode d (concat cs))"
proof (induction cs arbitrary: d)
  case Nil
  from assms show ?case by (simp add: streaming_def)
next
  case (Cons c cs)
  from assms have "decode d (c @ concat cs) =
      (case decode d c of (t1, d1) \<Rightarrow>
         (case decode d1 (concat cs) of (t2, d2) \<Rightarrow> (t1 @ t2, d2)))"
    unfolding streaming_def by blast
  with Cons show ?case by (simp split: prod.splits)
qed

text \<open>A whole stream: every chunk arrives and the reader is done.\<close>

lemma streamQuery_whole:
  assumes "ok response" and "body response = Some (map Chunk chunks)"
    and "length chunks < fuel"
  shows "streamQuery parse decode decoder0 fuel q sid (Resolved response) =
     \<lparr>request = requestBody q sid,
      yielded = yieldsOf (streamEffects parse (decodeChunks decode decoder0 chunks)),
      session = storedAfter sid (streamEffects parse (decodeChunks decode decoder0 chunks)),
      outcome = (case lastEffect parse (last (split_newline (decodeChunks decode decoder0 chunks))) of
                   Store v \<Rightarrow> OutOfFuel | _ \<Rightarrow> Returned)\<rparr>"
proof -
  have "streamLoop parse decode fuel decoder0 (map Chunk chunks) [] sid =
     (yieldsOf (streamEffects parse (decodeChunks decode decoder0 chunks)),
      storedAfter sid (streamEffects parse (decodeChunks decode decoder0 chunks)),
      (case lastEffect parse (last (split_newline (decodeChunks decode decoder0 chunks))) of
         Store v \<Rightarrow> OutOfFuel | _ \<Rightarrow> Returned))"
    using streamLoop_reader [of "map Chunk chunks" fuel "[]" parse decode decoder0 sid] assms(3)
    by (simp add: chunksBefore_map_Chunk readError_map_Chunk)
  with assms(1,2) show ?thesis
    by (simp add: streamQuery_def tryBody_def split: effect.splits)
qed

text \<open>A stream cut short: a \<open>read()\<close> rejects after the chunks.\<close>

lemma streamQuery_cut:
  assumes "ok response" and "body response = Some reader" and "readError reader = Some e"
    and "length (chunksBefore reader) < fuel"
  shows "streamQuery parse decode decoder0 fuel q sid (Resolved response) =
     \<lparr>request = requestBody q sid,
      yielded = yieldsOf (completeLines parse (decodeChunks decode decoder0 (chunksBefore reader))) @
        [mkMessage ''error''
           (case e of JsError message \<Rightarrow> message | NonError \<Rightarrow> ''An unknown error occurred'')],
      session = storedAfter sid (completeLines parse (decodeChunks decode decoder0 (chunksBefore reader))),
      outcome = Returned\<rparr>"
proof -
  have "streamLoop parse decode fuel decoder0 reader [] sid =
     (yieldsOf (completeLines parse (decodeChunks decode decoder0 (chunksBefore reader))),
      storedAfter sid (completeLines parse (decodeChunks decode decoder0 (chunksBefore reader))),
      Threw e)"
    using streamLoop_reader [of reader fuel "[]" parse decode decoder0 sid] assms(3,4)
    by simp
  with assms(1,2) show ?thesis
    by (simp add: streamQuery_def tryBody_def)
qed

text \<open>
  C1. For every way of cutting a finite response into chunks, \<open>streamQuery\<close> yields the
  values that the lines of the decoded text carry, in the order of the lines (so the typed
  messages among them come in the order of their lines), and the whole run (the values
  yielded, the identifier stored, the way the generator ends) is the run on the response
  arriving as a single chunk. A line carries a value when it parses to an object or an
  array without a \<open>sessionId\<close> field (\<open>carried_Yield\<close>); a line with that field carries
  the identifier instead (C2). The fuel only has to cover one iteration per chunk and one
  more.
\<close>

theorem streamQuery_chunking:
  assumes "streaming decode"
    and "ok response" and "body response = Some (map Chunk chunks)"
    and "length chunks < fuel" and "1 < fuel1"
  shows "yielded (streamQuery parse decode decoder0 fuel q sid (Resolved response)) =
           yieldsOf (streamEffects parse (fst (decode decoder0 (concat chunks)))) \<and>
         filter typed (yielded (streamQuery parse decode decoder0 fuel q sid (Resolved response))) =
           filter typed (yieldsOf (streamEffects parse (fst (decode decoder0 (concat chunks))))) \<and>
         streamQuery parse decode decoder0 fuel q sid (Resolved response) =
           streamQuery parse decode decoder0 fuel1 q sid
             (Resolved (response\<lparr>body := Some [Chunk (concat chunks)]\<rparr>))"
proof -
  have whole: "decodeChunks decode decoder0 chunks = fst (decode decoder0 (concat chunks))"
    using assms(1) by (rule decodeChunks_concat)
  have single: "decodeChunks decode decoder0 [concat chunks] = fst (decode decoder0 (concat chunks))"
    using decodeChunks_concat [OF assms(1), of decoder0 "[concat chunks]"] by simp
  have ok1: "ok (response\<lparr>body := Some [Chunk (concat chunks)]\<rparr>)"
    using assms(2) by (simp add: ok_def)
  have body1: "body (response\<lparr>body := Some [Chunk (concat chunks)]\<rparr>) =
      Some (map Chunk [concat chunks])"
    by simp
  have len1: "length [concat chunks] < fuel1"
    using assms(5) by simp
  show ?thesis
    unfolding streamQuery_whole [OF assms(2,3,4)] streamQuery_whole [OF ok1 body1 len1]
      whole single
    by simp
qed

theorem streamQuery_chunking_witness:
  \<open>streaming asciiDecode \<and>
   ok \<lparr>statusCode = 200, body = Some (map Chunk
        [''{"type":"status","con'',
         ''tent":"Searching"}'' @ [CHR 0x0A] @ ''{"type":"content","content":"Done"}''])\<rparr> \<and>
   yielded (streamQuery sampleParse asciiDecode () 3 ''ev safety'' JNull
     (Resolved \<lparr>statusCode = 200, body = Some (map Chunk
        [''{"type":"status","con'',
         ''tent":"Searching"}'' @ [CHR 0x0A] @ ''{"type":"content","content":"Done"}''])\<rparr>)) =
     [JObject [(''type'', JString ''status''), (''content'', JString ''Searching'')],
      JObject [(''type'', JString ''content''), (''content'', JString ''Done'')]] \<and>
   streamQuery sampleParse asciiDecode () 3 ''ev safety'' JNull
     (Resolved \<lparr>statusCode = 200, body = Some (map Chunk
        [''{"type":"status","con'',
         ''tent":"Searching"}'' @ [CHR 0x0A] @ ''{"type":"content","content":"Done"}''])\<rparr>) =
   streamQuery sampleParse asciiDecode () 2 ''ev safety'' JNull
     (Resolved \<lparr>statusCode = 200, body = Some
        [Chunk (''{"type":"status","content":"Searching"}'' @ [CHR 0x0A] @
                ''{"type":"content","content":"Done"}'')]\<rparr>)\<close>
proof -
  have h1: "streaming asciiDecode"
    by (simp add: streaming_def asciiDecode_def)
  have h2: \<open>ok \<lparr>statusCode = 200, body = Some (map Chunk
        [''{"type":"status","con'',
         ''tent":"Searching"}'' @ [CHR 0x0A] @ ''{"type":"content","content":"Done"}''])\<rparr>\<close>
    by (simp add: ok_def)
  have h3: \<open>body \<lparr>statusCode = 200, body = Some (map Chunk
        [''{"type":"status","con'',
         ''tent":"Searching"}'' @ [CHR 0x0A] @ ''{"type":"content","content":"Done"}''])\<rparr> =
      Some (map Chunk [''{"type":"status","con'',
         ''tent":"Searching"}'' @ [CHR 0x0A] @ ''{"type":"content","content":"Done"}''])\<close>
    by simp
  have h4: \<open>length [''{"type":"status","con'',
         ''tent":"Searching"}'' @ [CHR 0x0A] @ ''{"type":"content","content":"Done"}''] < 3\<close>
    by simp
  have h5: "1 < (2::nat)" by simp
  have ev: \<open>yieldsOf (streamEffects sampleParse (fst (asciiDecode () (concat
        [''{"type":"status","con'',
         ''tent":"Searching"}'' @ [CHR 0x0A] @ ''{"type":"content","content":"Done"}''])))) =
     [JObject [(''type'', JString ''status''), (''content'', JString ''Searching'')],
      JObject [(''type'', JString ''content''), (''content'', JString ''Done'')]]\<close>
    by (simp add: streamEffects_def completeLines_def lineEffect_def lastEffect_def carried_def
          trim_def isWhiteSpace_def sampleParse_def asciiDecode_def)
  note th = streamQuery_chunking [OF h1 h2 h3 h4 h5, of sampleParse "()" "''ev safety''" JNull]
  have a: \<open>yielded (streamQuery sampleParse asciiDecode () 3 ''ev safety'' JNull
     (Resolved \<lparr>statusCode = 200, body = Some (map Chunk
        [''{"type":"status","con'',
         ''tent":"Searching"}'' @ [CHR 0x0A] @ ''{"type":"content","content":"Done"}''])\<rparr>)) =
     [JObject [(''type'', JString ''status''), (''content'', JString ''Searching'')],
      JObject [(''type'', JString ''content''), (''content'', JString ''Done'')]]\<close>
    by (rule trans [OF conjunct1 [OF th] ev])
  have c: \<open>streamQuery sampleParse asciiDecode () 3 ''ev safety'' JNull
     (Resolved \<lparr>statusCode = 200, body = Some (map Chunk
        [''{"type":"status","con'',
         ''tent":"Searching"}'' @ [CHR 0x0A] @ ''{"type":"content","content":"Done"}''])\<rparr>) =
   streamQuery sampleParse asciiDecode () 2 ''ev safety'' JNull
     (Resolved \<lparr>statusCode = 200, body = Some
        [Chunk (''{"type":"status","content":"Searching"}'' @ [CHR 0x0A] @
                ''{"type":"content","content":"Done"}'')]\<rparr>)\<close>
    using conjunct2 [OF conjunct2 [OF th]] by simp
  show ?thesis
    by (intro conjI h1 h2 a c)
qed

section \<open>What is yielded, what is stored\<close>

lemma yieldsOf_no_sessionId:
  "list_all (\<lambda>m. inOp ''sessionId'' m = Some False) (yieldsOf (map (lineEffect parse) ls))"
proof (induction ls)
  case Nil
  show ?case by simp
next
  case (Cons l ls)
  then show ?case
    by (cases "lineEffect parse l") (auto simp: lineEffect_def carried_Yield split: if_splits)
qed

lemma forLines_no_sessionId:
  "list_all (\<lambda>m. inOp ''sessionId'' m = Some False) (fst (forLines parse ls sid))"
  by (simp add: forLines_effects yieldsOf_no_sessionId)

lemma completeLines_no_sessionId:
  "list_all (\<lambda>m. inOp ''sessionId'' m = Some False) (yieldsOf (completeLines parse txt))"
  by (simp add: completeLines_def yieldsOf_no_sessionId)

lemma yieldsOf_last_no_sessionId:
  "list_all (\<lambda>m. inOp ''sessionId'' m = Some False) (yieldsOf [lastEffect parse l])"
  by (cases "lastEffect parse l") (auto simp: lastEffect_def carried_Yield split: if_splits)

lemma streamLoop_no_sessionId:
  "list_all (\<lambda>m. inOp ''sessionId'' m = Some False)
     (fst (streamLoop parse decode fuel d reader buffer sid))"
proof (induction fuel arbitrary: d reader buffer sid)
  case 0
  show ?case by simp
next
  case (Suc n)
  show ?case
  proof (cases reader)
    case Nil
    then show ?thesis
      by (simp add: streamLoop_done yieldsOf_last_no_sessionId del: streamLoop.simps)
  next
    case (Cons r rs)
    show ?thesis
    proof (cases r)
      case (Chunk c)
      obtain t d' where dec: "decode d c = (t, d')" by (cases "decode d c")
      obtain zs s out where rest:
        "streamLoop parse decode n d' rs (last (split_newline (buffer @ t)))
           (storedAfter sid (completeLines parse (buffer @ t))) = (zs, s, out)"
        by (cases "streamLoop parse decode n d' rs (last (split_newline (buffer @ t)))
           (storedAfter sid (completeLines parse (buffer @ t)))")
      have "list_all (\<lambda>m. inOp ''sessionId'' m = Some False) zs"
        using Suc [of d' rs "last (split_newline (buffer @ t))"
            "storedAfter sid (completeLines parse (buffer @ t))"]
        by (simp only: rest fst_conv)
      moreover have "streamLoop parse decode (Suc n) d (Chunk c # rs) buffer sid =
          (yieldsOf (completeLines parse (buffer @ t)) @ zs, s, out)"
        by (simp add: streamLoop_Chunk dec rest del: streamLoop.simps)
      ultimately show ?thesis
        unfolding Cons Chunk by (simp add: completeLines_no_sessionId del: streamLoop.simps)
    next
      case (ReadError e)
      with Cons show ?thesis by simp
    qed
  qed
qed

lemma mkMessage_no_sessionId: "inOp ''sessionId'' (mkMessage ty content) = Some False"
  by (simp add: mkMessage_def)

lemma tryBody_no_sessionId:
  "list_all (\<lambda>m. inOp ''sessionId'' m = Some False)
     (fst (tryBody parse decode decoder0 fuel sid fetchResult))"
  by (simp add: tryBody_def streamLoop_no_sessionId mkMessage_no_sessionId
        split: fetched.splits option.splits)

lemma streamQuery_no_sessionId:
  "list_all (\<lambda>m. inOp ''sessionId'' m = Some False)
     (yielded (streamQuery parse decode decoder0 fuel q sid fetchResult))"
proof -
  obtain ys s out where t: "tryBody parse decode decoder0 fuel sid fetchResult = (ys, s, out)"
    by (cases "tryBody parse decode decoder0 fuel sid fetchResult")
  with tryBody_no_sessionId [of parse decode decoder0 fuel sid fetchResult]
  show ?thesis
    by (cases out) (simp_all add: streamQuery_def mkMessage_no_sessionId)
qed

lemma request_streamQuery:
  "request (streamQuery parse decode decoder0 fuel q sid fetchResult) = requestBody q sid"
proof -
  obtain ys s out where t: "tryBody parse decode decoder0 fuel sid fetchResult = (ys, s, out)"
    by (cases "tryBody parse decode decoder0 fuel sid fetchResult")
  then show ?thesis
    by (cases out) (simp_all add: streamQuery_def)
qed

lemma calls_sessionIds:
  "map (\<lambda>run. sessionId (request run)) (calls parse decode decoder0 sid cs) =
     butlast (sid # map session (calls parse decode decoder0 sid cs))"
proof (induction cs arbitrary: sid)
  case Nil
  show ?case by simp
next
  case (Cons c cs)
  obtain fuel q f where c: "c = (fuel, q, f)" by (cases c)
  show ?case
    by (simp add: c Let_def Cons request_streamQuery requestBody_def)
qed

text \<open>
  C3. On a response with status 429, \<open>streamQuery\<close> yields one value, the \<open>error\<close>
  message that asks to wait a minute, and returns. The run is the same whatever the body
  holds and whatever the fuel, also with none: no \<open>read()\<close> is made.
\<close>

theorem streamQuery_429:
  "statusCode response = 429 \<Longrightarrow>
   streamQuery parse decode decoder0 fuel q sid (Resolved response) =
     \<lparr>request = requestBody q sid,
      yielded = [JObject [(''type'', JString ''error''),
                          (''content'', JString
                             ''Too many requests. Please wait a minute before trying again.'')]],
      session = sid,
      outcome = Returned\<rparr>"
  by (simp add: streamQuery_def tryBody_def ok_def mkMessage_def)

theorem streamQuery_429_witness:
  \<open>statusCode \<lparr>statusCode = 429,
       body = Some [Chunk ''{"type":"content","content":"Done"}'', ReadError NonError]\<rparr> = 429 \<and>
   streamQuery sampleParse asciiDecode () 0 ''ev safety'' (JString ''abc'')
     (Resolved \<lparr>statusCode = 429,
        body = Some [Chunk ''{"type":"content","content":"Done"}'', ReadError NonError]\<rparr>) =
     \<lparr>request = \<lparr>query = ''ev safety'', sessionId = JString ''abc'', max_results = Some JNull\<rparr>,
      yielded = [JObject [(''type'', JString ''error''),
                          (''content'', JString
                             ''Too many requests. Please wait a minute before trying again.'')]],
      session = JString ''abc'',
      outcome = Returned\<rparr>\<close>
proof -
  have h: \<open>statusCode \<lparr>statusCode = 429,
       body = Some [Chunk ''{"type":"content","content":"Done"}'', ReadError NonError]\<rparr> = 429\<close>
    by simp
  have q: "requestBody ''ev safety'' (JString ''abc'') =
      \<lparr>query = ''ev safety'', sessionId = JString ''abc'', max_results = Some JNull\<rparr>"
    by (simp add: requestBody_def trim_def isWhiteSpace_def)
  show ?thesis
    using streamQuery_429 [OF h, of sampleParse asciiDecode "()" 0 "''ev safety''" "JString ''abc''"]
    unfolding q by (intro conjI h)
qed

lemma outcome_streamQuery_not_Threw:
  "outcome (streamQuery parse decode decoder0 fuel q sid fetchResult) \<noteq> Threw e"
proof -
  obtain ys s out where t: "tryBody parse decode decoder0 fuel sid fetchResult = (ys, s, out)"
    by (cases "tryBody parse decode decoder0 fuel sid fetchResult")
  then show ?thesis
    by (cases out) (simp_all add: streamQuery_def)
qed

lemma readError_None_reader: "readError reader = None \<Longrightarrow> map Chunk (chunksBefore reader) = reader"
  by (induction reader rule: readError.induct) auto

text \<open>
  C4. No run of \<open>streamQuery\<close> ends by throwing. On every failure (\<open>fetch\<close> rejects, the
  status is not ok, the body is \<open>null\<close>, a \<open>read()\<close> rejects), once the fuel covers the
  chunks that arrive before the failure, the generator returns and the last value it
  yielded is a message of type \<open>error\<close>.
\<close>

theorem streamQuery_failure:
  assumes "failure fetchResult" and "chunkCount fetchResult < fuel"
  shows "outcome (streamQuery parse decode decoder0 fuel q sid fetchResult) = Returned \<and>
         yielded (streamQuery parse decode decoder0 fuel q sid fetchResult) \<noteq> [] \<and>
         getProp (last (yielded (streamQuery parse decode decoder0 fuel q sid fetchResult))) ''type'' =
           Some (JString ''error'') \<and>
         (\<forall>e. outcome (streamQuery parse decode decoder0 fuel' q' sid' fetchResult') \<noteq> Threw e)"
proof -
  have main: "outcome (streamQuery parse decode decoder0 fuel q sid fetchResult) = Returned \<and>
         yielded (streamQuery parse decode decoder0 fuel q sid fetchResult) \<noteq> [] \<and>
         getProp (last (yielded (streamQuery parse decode decoder0 fuel q sid fetchResult))) ''type'' =
           Some (JString ''error'')"
  proof (cases fetchResult)
    case (Rejected e)
    then show ?thesis
      by (simp add: streamQuery_def tryBody_def mkMessage_def)
  next
    case (Resolved response)
    show ?thesis
    proof (cases "ok response")
      case False
      with Resolved show ?thesis
        by (simp add: streamQuery_def tryBody_def mkMessage_def)
    next
      case True
      show ?thesis
      proof (cases "body response")
        case None
        with True Resolved show ?thesis
          by (simp add: streamQuery_def tryBody_def mkMessage_def)
      next
        case (Some reader)
        with assms True Resolved obtain e where e: "readError reader = Some e"
          by (auto simp: failure_def)
        from assms(2) Resolved Some have len: "length (chunksBefore reader) < fuel"
          by (simp add: chunkCount_def)
        show ?thesis
          unfolding Resolved streamQuery_cut [OF True Some e len]
          by (simp add: mkMessage_def)
      qed
    qed
  qed
  from main show ?thesis by (simp add: outcome_streamQuery_not_Threw)
qed

theorem streamQuery_failure_witness:
  \<open>failure (Resolved \<lparr>statusCode = 200, body = Some
       [Chunk (''{"type":"status","content":"Searching"}'' @ [CHR 0x0A]),
        ReadError (JsError ''network error'')]\<rparr>) \<and>
   chunkCount (Resolved \<lparr>statusCode = 200, body = Some
       [Chunk (''{"type":"status","content":"Searching"}'' @ [CHR 0x0A]),
        ReadError (JsError ''network error'')]\<rparr>) < 2 \<and>
   outcome (streamQuery sampleParse asciiDecode () 2 ''ev safety'' JNull
     (Resolved \<lparr>statusCode = 200, body = Some
       [Chunk (''{"type":"status","content":"Searching"}'' @ [CHR 0x0A]),
        ReadError (JsError ''network error'')]\<rparr>)) = Returned \<and>
   yielded (streamQuery sampleParse asciiDecode () 2 ''ev safety'' JNull
     (Resolved \<lparr>statusCode = 200, body = Some
       [Chunk (''{"type":"status","content":"Searching"}'' @ [CHR 0x0A]),
        ReadError (JsError ''network error'')]\<rparr>)) =
     [JObject [(''type'', JString ''status''), (''content'', JString ''Searching'')],
      JObject [(''type'', JString ''error''), (''content'', JString ''network error'')]]\<close>
proof -
  have h1: \<open>failure (Resolved \<lparr>statusCode = 200, body = Some
       [Chunk (''{"type":"status","content":"Searching"}'' @ [CHR 0x0A]),
        ReadError (JsError ''network error'')]\<rparr>)\<close>
    by (simp add: failure_def ok_def)
  have h2: \<open>chunkCount (Resolved \<lparr>statusCode = 200, body = Some
       [Chunk (''{"type":"status","content":"Searching"}'' @ [CHR 0x0A]),
        ReadError (JsError ''network error'')]\<rparr>) < 2\<close>
    by (simp add: chunkCount_def)
  have ev: \<open>yielded (streamQuery sampleParse asciiDecode () 2 ''ev safety'' JNull
     (Resolved \<lparr>statusCode = 200, body = Some
       [Chunk (''{"type":"status","content":"Searching"}'' @ [CHR 0x0A]),
        ReadError (JsError ''network error'')]\<rparr>)) =
     [JObject [(''type'', JString ''status''), (''content'', JString ''Searching'')],
      JObject [(''type'', JString ''error''), (''content'', JString ''network error'')]]\<close>
    by (simp add: streamQuery_def tryBody_def ok_def numeral_2_eq_2 asciiDecode_def pop_def
          trim_def isWhiteSpace_def sampleParse_def mkMessage_def)
  show ?thesis
    using streamQuery_failure [OF h1 h2, of sampleParse asciiDecode "()" "''ev safety''" JNull]
    by (intro conjI h1 h2 ev) simp
qed

text \<open>
  C8. The response is the single line \<open>{"sessionId":"abc"}\<close> with no line feed after it.
  The \<open>done\<close> branch stores the identifier and takes \<open>continue\<close>, which leads back to
  \<open>reader.read()\<close> on the finished reader with the same \<open>buffer\<close>: whatever the fuel,
  the generator has not returned when it is used up.
\<close>

theorem streamQuery_sessionId_last_never_returns:
  \<open>outcome (streamQuery sampleParse asciiDecode () fuel q sid
     (Resolved \<lparr>statusCode = 200, body = Some [Chunk ''{"sessionId":"abc"}'']\<rparr>)) = OutOfFuel\<close>
proof (cases "1 < fuel")
  case True
  have h1: \<open>ok \<lparr>statusCode = 200, body = Some [Chunk ''{"sessionId":"abc"}'']\<rparr>\<close>
    by (simp add: ok_def)
  have h2: \<open>body \<lparr>statusCode = 200, body = Some [Chunk ''{"sessionId":"abc"}'']\<rparr> =
      Some (map Chunk [''{"sessionId":"abc"}''])\<close>
    by simp
  have h3: \<open>length [''{"sessionId":"abc"}''] < fuel\<close>
    using True by simp
  show ?thesis
    unfolding streamQuery_whole [OF h1 h2 h3]
    by (simp add: asciiDecode_def lastEffect_def carried_def sampleParse_def)
next
  case False
  then have "fuel = 0 \<or> fuel = Suc 0" by auto
  then show ?thesis
    by (auto simp: streamQuery_def tryBody_def ok_def asciiDecode_def pop_def)
qed

text \<open>When the whole response arrives, the generator returns unless the final line, the
  one no line feed ends, carries a session identifier.\<close>

lemma streamQuery_whole_outcome:
  assumes "ok response" and "body response = Some (map Chunk chunks)"
    and "length chunks < fuel"
  shows "outcome (streamQuery parse decode decoder0 fuel q sid (Resolved response)) =
     (case lastEffect parse (last (split_newline (decodeChunks decode decoder0 chunks))) of
        Store v \<Rightarrow> OutOfFuel | _ \<Rightarrow> Returned)"
  by (simp add: streamQuery_whole [OF assms])

text \<open>On that response \<open>handleSubmit\<close> does not come to its end either: the \<open>finally\<close>
  block is not reached and \<open>isLoading\<close> stays true.\<close>

lemma handleSubmit_sessionId_last_never_settles:
  \<open>settled (handleSubmit sampleParse asciiDecode () sampleToString fuel
      \<lparr>messages = [], input = ''ev safety'', isLoading = False\<rparr> JNull
      (Resolved \<lparr>statusCode = 200, body = Some [Chunk ''{"sessionId":"abc"}'']\<rparr>)) = False \<and>
   isLoading (chat (handleSubmit sampleParse asciiDecode () sampleToString fuel
      \<lparr>messages = [], input = ''ev safety'', isLoading = False\<rparr> JNull
      (Resolved \<lparr>statusCode = 200, body = Some [Chunk ''{"sessionId":"abc"}'']\<rparr>))) = True\<close>
proof -
  have run: \<open>yielded (streamQuery sampleParse asciiDecode () fuel ''ev safety'' JNull
       (Resolved \<lparr>statusCode = 200, body = Some [Chunk ''{"sessionId":"abc"}'']\<rparr>)) = [] \<and>
     outcome (streamQuery sampleParse asciiDecode () fuel ''ev safety'' JNull
       (Resolved \<lparr>statusCode = 200, body = Some [Chunk ''{"sessionId":"abc"}'']\<rparr>)) = OutOfFuel\<close>
  proof (cases "1 < fuel")
    case True
    have h1: \<open>ok \<lparr>statusCode = 200, body = Some [Chunk ''{"sessionId":"abc"}'']\<rparr>\<close>
      by (simp add: ok_def)
    have h2: \<open>body \<lparr>statusCode = 200, body = Some [Chunk ''{"sessionId":"abc"}'']\<rparr> =
        Some (map Chunk [''{"sessionId":"abc"}''])\<close>
      by simp
    have h3: \<open>length [''{"sessionId":"abc"}''] < fuel\<close>
      using True by simp
    show ?thesis
      unfolding streamQuery_whole [OF h1 h2 h3]
      by (simp add: asciiDecode_def streamEffects_def completeLines_def lastEffect_def
            carried_def sampleParse_def)
  next
    case False
    then have "fuel = 0 \<or> fuel = Suc 0" by auto
    then show ?thesis
      by (auto simp: streamQuery_def tryBody_def ok_def asciiDecode_def pop_def)
  qed
  show ?thesis
    by (simp add: handleSubmit_def guard_def beginSubmit_def trim_def isWhiteSpace_def Let_def run)
qed

text \<open>
  C2. No value that \<open>streamQuery\<close> yields has a \<open>sessionId\<close> field. A line carries an
  identifier exactly when it parses to an object with a \<open>sessionId\<close> field; when the body
  has given its chunks (all of them, or those before a \<open>read()\<close> rejects),
  \<open>currentSessionId\<close> is the identifier carried last by the lines the loop has seen (the
  final buffered line among them when the reader is done), or what it was before when
  they carry none. The request of a call has the \<open>currentSessionId\<close> of that moment as its
  \<open>sessionId\<close>: over calls made one after the other from the initial \<open>null\<close>, each
  request's \<open>sessionId\<close> is what the call before left, and \<open>null\<close> for the first.
\<close>

theorem streamQuery_session:
  assumes "ok response" and "body response = Some reader"
    and "length (chunksBefore reader) < fuel"
  shows "list_all (\<lambda>m. inOp ''sessionId'' m = Some False)
           (yielded (streamQuery parse decode decoder0 fuel' q' sid' fetchResult')) \<and>
         (carried parse l = Store v) =
           (\<exists>kvs. parse l = Some (JObject kvs) \<and> map_of kvs ''sessionId'' = Some v) \<and>
         session (streamQuery parse decode decoder0 fuel q sid (Resolved response)) =
           storedAfter sid
             (case readError reader of
                None \<Rightarrow> streamEffects parse (decodeChunks decode decoder0 (chunksBefore reader))
              | Some e \<Rightarrow> completeLines parse (decodeChunks decode decoder0 (chunksBefore reader))) \<and>
         sessionId (request (streamQuery parse decode decoder0 fuel' q' sid' fetchResult')) = sid' \<and>
         map (\<lambda>run. sessionId (request run)) (calls parse decode decoder0 JNull cs) =
           butlast (JNull # map session (calls parse decode decoder0 JNull cs))"
proof -
  have stored: "session (streamQuery parse decode decoder0 fuel q sid (Resolved response)) =
      storedAfter sid
        (case readError reader of
           None \<Rightarrow> streamEffects parse (decodeChunks decode decoder0 (chunksBefore reader))
         | Some e \<Rightarrow> completeLines parse (decodeChunks decode decoder0 (chunksBefore reader)))"
  proof (cases "readError reader")
    case None
    then have "body response = Some (map Chunk (chunksBefore reader))"
      using assms(2) by (simp add: readError_None_reader)
    then show ?thesis
      by (simp add: streamQuery_whole [OF assms(1) _ assms(3)] None)
  next
    case (Some e)
    show ?thesis
      by (simp add: streamQuery_cut [OF assms(1,2) Some assms(3)] Some)
  qed
  show ?thesis
    by (intro conjI streamQuery_no_sessionId carried_Store stored calls_sessionIds)
       (simp add: request_streamQuery requestBody_def)
qed

theorem streamQuery_session_witness:
  \<open>ok \<lparr>statusCode = 200, body = Some
       [Chunk (''{"sessionId":"abc"}'' @ [CHR 0x0A] @ ''{"type":"content","content":"Done"}'')]\<rparr> \<and>
   yielded (streamQuery sampleParse asciiDecode () 2 ''ev safety'' JNull
     (Resolved \<lparr>statusCode = 200, body = Some
       [Chunk (''{"sessionId":"abc"}'' @ [CHR 0x0A] @ ''{"type":"content","content":"Done"}'')]\<rparr>)) =
     [JObject [(''type'', JString ''content''), (''content'', JString ''Done'')]] \<and>
   session (streamQuery sampleParse asciiDecode () 2 ''ev safety'' JNull
     (Resolved \<lparr>statusCode = 200, body = Some
       [Chunk (''{"sessionId":"abc"}'' @ [CHR 0x0A] @ ''{"type":"content","content":"Done"}'')]\<rparr>)) =
     JString ''abc'' \<and>
   map (\<lambda>run. sessionId (request run))
     (calls sampleParse asciiDecode () JNull
        [(2, ''ev safety'', Resolved \<lparr>statusCode = 200, body = Some
            [Chunk (''{"sessionId":"abc"}'' @ [CHR 0x0A] @ ''{"type":"content","content":"Done"}'')]\<rparr>),
         (2, ''and range'', Rejected NonError),
         (2, ''and price'', Rejected NonError)]) =
     [JNull, JString ''abc'', JString ''abc'']\<close>
proof -
  have h1: \<open>ok \<lparr>statusCode = 200, body = Some
       [Chunk (''{"sessionId":"abc"}'' @ [CHR 0x0A] @ ''{"type":"content","content":"Done"}'')]\<rparr>\<close>
    by (simp add: ok_def)
  have h2: \<open>body \<lparr>statusCode = 200, body = Some
       [Chunk (''{"sessionId":"abc"}'' @ [CHR 0x0A] @ ''{"type":"content","content":"Done"}'')]\<rparr> =
     Some [Chunk (''{"sessionId":"abc"}'' @ [CHR 0x0A] @ ''{"type":"content","content":"Done"}'')]\<close>
    by simp
  have h3: \<open>length (chunksBefore
       [Chunk (''{"sessionId":"abc"}'' @ [CHR 0x0A] @ ''{"type":"content","content":"Done"}'')]) < 2\<close>
    by simp
  note th = streamQuery_session [OF h1 h2 h3, of sampleParse asciiDecode "()"]
  have run: \<open>streamQuery sampleParse asciiDecode () 2 ''ev safety'' JNull
     (Resolved \<lparr>statusCode = 200, body = Some
       [Chunk (''{"sessionId":"abc"}'' @ [CHR 0x0A] @ ''{"type":"content","content":"Done"}'')]\<rparr>) =
     \<lparr>request = \<lparr>query = ''ev safety'', sessionId = JNull, max_results = Some JNull\<rparr>,
      yielded = [JObject [(''type'', JString ''content''), (''content'', JString ''Done'')]],
      session = JString ''abc'', outcome = Returned\<rparr>\<close>
    by (simp add: streamQuery_def tryBody_def ok_def numeral_2_eq_2 asciiDecode_def pop_def
          trim_def isWhiteSpace_def sampleParse_def requestBody_def)
  have a: \<open>yielded (streamQuery sampleParse asciiDecode () 2 ''ev safety'' JNull
     (Resolved \<lparr>statusCode = 200, body = Some
       [Chunk (''{"sessionId":"abc"}'' @ [CHR 0x0A] @ ''{"type":"content","content":"Done"}'')]\<rparr>)) =
     [JObject [(''type'', JString ''content''), (''content'', JString ''Done'')]]\<close>
    unfolding run by simp
  have b: \<open>session (streamQuery sampleParse asciiDecode () 2 ''ev safety'' JNull
     (Resolved \<lparr>statusCode = 200, body = Some
       [Chunk (''{"sessionId":"abc"}'' @ [CHR 0x0A] @ ''{"type":"content","content":"Done"}'')]\<rparr>)) =
     JString ''abc''\<close>
    unfolding run by simp
  have rej: "\<And>q sid. session (streamQuery sampleParse asciiDecode () 2 q sid (Rejected NonError)) = sid"
    by (simp add: streamQuery_def tryBody_def)
  have c: \<open>map (\<lambda>run. sessionId (request run))
     (calls sampleParse asciiDecode () JNull
        [(2, ''ev safety'', Resolved \<lparr>statusCode = 200, body = Some
            [Chunk (''{"sessionId":"abc"}'' @ [CHR 0x0A] @ ''{"type":"content","content":"Done"}'')]\<rparr>),
         (2, ''and range'', Rejected NonError),
         (2, ''and price'', Rejected NonError)]) =
     [JNull, JString ''abc'', JString ''abc'']\<close>
    unfolding conjunct2 [OF conjunct2 [OF conjunct2 [OF conjunct2 [OF th]]]]
    by (simp add: Let_def b [simplified] rej)
  show ?thesis
    by (intro conjI h1 a b c)
qed

section \<open>A line that does not parse\<close>

lemma split_newline_line:
  "CHR 0x0A \<notin> set l \<Longrightarrow> split_newline (l @ CHR 0x0A # b) = l # split_newline b"
  by (induction l) auto

lemma last_split_newline_ended:
  assumes "a = [] \<or> last a = CHR 0x0A"
  shows "last (split_newline a) = []"
proof (cases "a = []")
  case True
  then show ?thesis by simp
next
  case False
  with assms have a: "a = butlast a @ [CHR 0x0A]"
    by (metis append_butlast_last_id)
  have "last (split_newline (butlast a @ [CHR 0x0A])) =
      last (split_newline (last (split_newline (butlast a)) @ [CHR 0x0A]))"
    by (rule last_split_newline_append)
  also have "\<dots> = []"
    by (simp add: split_newline_line [OF last_split_newline_no_newline])
  finally show ?thesis using a by simp
qed

lemma streamEffects_after_ended:
  assumes "a = [] \<or> last a = CHR 0x0A"
  shows "streamEffects parse (a @ x) = completeLines parse a @ streamEffects parse x"
  by (simp add: streamEffects_append last_split_newline_ended [OF assms])

lemma last_split_newline_after_ended:
  assumes "a = [] \<or> last a = CHR 0x0A"
  shows "last (split_newline (a @ x)) = last (split_newline x)"
  by (subst last_split_newline_append) (simp add: last_split_newline_ended [OF assms])

lemma streamEffects_line:
  assumes "CHR 0x0A \<notin> set l"
  shows "streamEffects parse (l @ CHR 0x0A # b) = lineEffect parse l # streamEffects parse b"
  by (simp add: streamEffects_def completeLines_def split_newline_line [OF assms]
        split_newline_not_Nil)

lemma lineEffect_invalid: "parse l = None \<Longrightarrow> lineEffect parse l = Skip"
  by (simp add: lineEffect_def carried_def)

lemma lastEffect_invalid: "parse l = None \<Longrightarrow> lastEffect parse l = Skip"
  by (simp add: lastEffect_def carried_def)

lemma lastEffect_empty: "lastEffect parse [] = Skip"
  by (simp add: lastEffect_def)

text \<open>
  C9. A line \<open>l\<close> that \<open>JSON.parse\<close> rejects stands in the response text after \<open>a\<close> (empty,
  or ending in a line feed) and before \<open>b\<close>, with its line feed, or as the final line with
  none. The run on that response is the run on the response without the line: nothing is
  yielded for it, no \<open>error\<close> message either, and the lines after it are processed as they
  would be without it.
\<close>

theorem invalid_line_skipped:
  assumes "parse l = None" and "CHR 0x0A \<notin> set l"
    and "a = [] \<or> last a = CHR 0x0A"
    and "ending = [CHR 0x0A] \<or> (ending = [] \<and> b = [])"
    and "ok response1" and "body response1 = Some (map Chunk chunks1)"
    and "length chunks1 < fuel1"
    and "decodeChunks decode decoder0 chunks1 = a @ l @ ending @ b"
    and "ok response2" and "body response2 = Some (map Chunk chunks2)"
    and "length chunks2 < fuel2"
    and "decodeChunks decode decoder0 chunks2 = a @ b"
  shows "streamQuery parse decode decoder0 fuel1 q sid (Resolved response1) =
         streamQuery parse decode decoder0 fuel2 q sid (Resolved response2)"
proof -
  have eff: "yieldsOf (streamEffects parse (a @ l @ ending @ b)) =
               yieldsOf (streamEffects parse (a @ b)) \<and>
             storedAfter sid (streamEffects parse (a @ l @ ending @ b)) =
               storedAfter sid (streamEffects parse (a @ b)) \<and>
             lastEffect parse (last (split_newline (a @ l @ ending @ b))) =
               lastEffect parse (last (split_newline (a @ b)))"
  proof (cases "ending = []")
    case False
    with assms(4) have e: "ending = [CHR 0x0A]" by simp
    have "last (split_newline (l @ CHR 0x0A # b)) = last (split_newline b)"
      by (simp add: split_newline_line [OF assms(2)] split_newline_not_Nil)
    then show ?thesis
      by (simp add: e streamEffects_after_ended [OF assms(3)]
            last_split_newline_after_ended [OF assms(3)] streamEffects_line [OF assms(2)]
            lineEffect_invalid [of parse l, OF assms(1)] yieldsOf_append storedAfter_append)
  next
    case True
    with assms(4) have b: "b = []" by simp
    have "streamEffects parse l = [Skip]"
      by (simp add: streamEffects_def completeLines_def split_newline_no_newline [OF assms(2)]
            lastEffect_invalid [of parse l, OF assms(1)])
    moreover have "streamEffects parse [] = [Skip]"
      by (simp add: streamEffects_def completeLines_def lastEffect_def)
    ultimately show ?thesis
      using streamEffects_after_ended [OF assms(3), of parse l]
        streamEffects_after_ended [OF assms(3), of parse "[]"]
        last_split_newline_after_ended [OF assms(3), of l]
        last_split_newline_after_ended [OF assms(3), of "[]"]
      by (simp add: True b split_newline_no_newline [OF assms(2)]
            lastEffect_invalid [of parse l, OF assms(1)] lastEffect_empty)
  qed
  show ?thesis
    unfolding streamQuery_whole [OF assms(5,6,7)] streamQuery_whole [OF assms(9,10,11)]
      assms(8) assms(12)
    using eff by simp
qed

theorem invalid_line_skipped_witness:
  \<open>sampleParse ''not json'' = None \<and>
   streamQuery sampleParse asciiDecode () 2 ''ev safety'' JNull
     (Resolved \<lparr>statusCode = 200, body = Some (map Chunk
        [''{"type":"status","content":"Searching"}'' @ [CHR 0x0A] @ ''not json'' @ [CHR 0x0A] @
         ''{"type":"content","content":"Done"}''])\<rparr>) =
   streamQuery sampleParse asciiDecode () 2 ''ev safety'' JNull
     (Resolved \<lparr>statusCode = 200, body = Some (map Chunk
        [''{"type":"status","content":"Searching"}'' @ [CHR 0x0A] @
         ''{"type":"content","content":"Done"}''])\<rparr>) \<and>
   yielded (streamQuery sampleParse asciiDecode () 2 ''ev safety'' JNull
     (Resolved \<lparr>statusCode = 200, body = Some (map Chunk
        [''{"type":"status","content":"Searching"}'' @ [CHR 0x0A] @ ''not json'' @ [CHR 0x0A] @
         ''{"type":"content","content":"Done"}''])\<rparr>)) =
     [JObject [(''type'', JString ''status''), (''content'', JString ''Searching'')],
      JObject [(''type'', JString ''content''), (''content'', JString ''Done'')]]\<close>
proof -
  have h1: "sampleParse ''not json'' = None"
    by (simp add: sampleParse_def)
  have h2: "CHR 0x0A \<notin> set ''not json''"
    by simp
  have h3: \<open>''{"type":"status","content":"Searching"}'' @ [CHR 0x0A] = [] \<or>
      last (''{"type":"status","content":"Searching"}'' @ [CHR 0x0A]) = CHR 0x0A\<close>
    by simp
  have h4: \<open>[CHR 0x0A] = [CHR 0x0A] \<or>
      ([CHR 0x0A] = [] \<and> ''{"type":"content","content":"Done"}'' = [])\<close>
    by simp
  have h5: \<open>ok \<lparr>statusCode = 200, body = Some (map Chunk
        [''{"type":"status","content":"Searching"}'' @ [CHR 0x0A] @ ''not json'' @ [CHR 0x0A] @
         ''{"type":"content","content":"Done"}''])\<rparr>\<close>
    by (simp add: ok_def)
  have h6: \<open>body \<lparr>statusCode = 200, body = Some (map Chunk
        [''{"type":"status","content":"Searching"}'' @ [CHR 0x0A] @ ''not json'' @ [CHR 0x0A] @
         ''{"type":"content","content":"Done"}''])\<rparr> = Some (map Chunk
        [''{"type":"status","content":"Searching"}'' @ [CHR 0x0A] @ ''not json'' @ [CHR 0x0A] @
         ''{"type":"content","content":"Done"}''])\<close>
    by simp
  have h7: \<open>length
        [''{"type":"status","content":"Searching"}'' @ [CHR 0x0A] @ ''not json'' @ [CHR 0x0A] @
         ''{"type":"content","content":"Done"}''] < 2\<close>
    by simp
  have h8: \<open>decodeChunks asciiDecode ()
        [''{"type":"status","content":"Searching"}'' @ [CHR 0x0A] @ ''not json'' @ [CHR 0x0A] @
         ''{"type":"content","content":"Done"}''] =
      (''{"type":"status","content":"Searching"}'' @ [CHR 0x0A]) @ ''not json'' @ [CHR 0x0A] @
         ''{"type":"content","content":"Done"}''\<close>
    by (simp add: asciiDecode_def)
  have h9: \<open>ok \<lparr>statusCode = 200, body = Some (map Chunk
        [''{"type":"status","content":"Searching"}'' @ [CHR 0x0A] @
         ''{"type":"content","content":"Done"}''])\<rparr>\<close>
    by (simp add: ok_def)
  have h10: \<open>body \<lparr>statusCode = 200, body = Some (map Chunk
        [''{"type":"status","content":"Searching"}'' @ [CHR 0x0A] @
         ''{"type":"content","content":"Done"}''])\<rparr> = Some (map Chunk
        [''{"type":"status","content":"Searching"}'' @ [CHR 0x0A] @
         ''{"type":"content","content":"Done"}''])\<close>
    by simp
  have h11: \<open>length
        [''{"type":"status","content":"Searching"}'' @ [CHR 0x0A] @
         ''{"type":"content","content":"Done"}''] < 2\<close>
    by simp
  have h12: \<open>decodeChunks asciiDecode ()
        [''{"type":"status","content":"Searching"}'' @ [CHR 0x0A] @
         ''{"type":"content","content":"Done"}''] =
      (''{"type":"status","content":"Searching"}'' @ [CHR 0x0A]) @
         ''{"type":"content","content":"Done"}''\<close>
    by (simp add: asciiDecode_def)
  have ev: \<open>yielded (streamQuery sampleParse asciiDecode () 2 ''ev safety'' JNull
     (Resolved \<lparr>statusCode = 200, body = Some (map Chunk
        [''{"type":"status","content":"Searching"}'' @ [CHR 0x0A] @ ''not json'' @ [CHR 0x0A] @
         ''{"type":"content","content":"Done"}''])\<rparr>)) =
     [JObject [(''type'', JString ''status''), (''content'', JString ''Searching'')],
      JObject [(''type'', JString ''content''), (''content'', JString ''Done'')]]\<close>
    by (simp add: streamQuery_def tryBody_def ok_def numeral_2_eq_2 asciiDecode_def pop_def
          trim_def isWhiteSpace_def sampleParse_def)
  show ?thesis
    by (intro conjI h1 ev
          invalid_line_skipped [where parse = sampleParse and l = "''not json''"
            and a = \<open>''{"type":"status","content":"Searching"}'' @ [CHR 0x0A]\<close>
            and ending = "[CHR 0x0A]" and b = \<open>''{"type":"content","content":"Done"}''\<close>,
            OF h1 h2 h3 h4 h5 h6 h7 h8 h9 h10 h11 h12])
qed

section \<open>The request\<close>

text \<open>
  C7, as amended. Every request that \<open>streamQuery\<close> builds has the \<open>max_results\<close> field,
  and its value is \<open>null\<close>: the field is never left out and never a number.
\<close>

theorem max_results_is_null:
  "max_results (request (streamQuery parse decode decoder0 fuel q sid fetchResult)) = Some JNull"
  by (simp add: request_streamQuery requestBody_def)

text \<open>
  C7, as stated: \<open>max_results\<close> left out, or a positive integer. The request of a plain
  call has neither.
\<close>

theorem max_results_absent_or_positive_counterexample:
  \<open>\<not> (max_results (request (streamQuery sampleParse asciiDecode () 2 ''ev safety'' JNull
          (Resolved \<lparr>statusCode = 200,
             body = Some [Chunk ''{"type":"content","content":"Done"}'']\<rparr>))) = None \<or>
       (\<exists>n. 0 < n \<and>
          max_results (request (streamQuery sampleParse asciiDecode () 2 ''ev safety'' JNull
            (Resolved \<lparr>statusCode = 200,
               body = Some [Chunk ''{"type":"content","content":"Done"}'']\<rparr>))) =
          Some (JNumber n)))\<close>
  by (simp add: request_streamQuery requestBody_def)

section \<open>The chat interface\<close>

text \<open>
  C5. \<open>handleSubmit\<close> makes no call of \<open>streamQuery\<close> when the input is empty or white
  space only. When it makes one, the \<open>query\<close> of the request is the input trimmed, and it
  is not empty. Whatever it is called with, \<open>streamQuery\<close> sends its argument trimmed.
\<close>

theorem handleSubmit_query:
  "(trim (input st) = [] \<longrightarrow>
      call (handleSubmit parse decode decoder0 toStr fuel st sid fetchResult) = None) \<and>
   (\<forall>run. call (handleSubmit parse decode decoder0 toStr fuel st sid fetchResult) = Some run \<longrightarrow>
      query (request run) = trim (input st) \<and> query (request run) \<noteq> []) \<and>
   query (request (streamQuery parse decode decoder0 fuel q sid fetchResult)) = trim q"
proof (intro conjI allI impI)
  assume "trim (input st) = []"
  then show "call (handleSubmit parse decode decoder0 toStr fuel st sid fetchResult) = None"
    by (simp add: handleSubmit_def guard_def)
next
  fix run
  assume c: "call (handleSubmit parse decode decoder0 toStr fuel st sid fetchResult) = Some run"
  then have g: "\<not> guard st"
    by (auto simp: handleSubmit_def)
  with c have run: "run = streamQuery parse decode decoder0 fuel (input st) sid fetchResult"
    by (auto simp: handleSubmit_def Let_def split: prod.splits if_splits outcome.splits)
  show "query (request run) = trim (input st)"
    by (simp add: run request_streamQuery requestBody_def)
  from g show "query (request run) \<noteq> []"
    by (simp add: run request_streamQuery requestBody_def guard_def)
next
  show "query (request (streamQuery parse decode decoder0 fuel q sid fetchResult)) = trim q"
    by (simp add: request_streamQuery requestBody_def)
qed


theorem handleSubmit_query_witness:
  "trim (input \<lparr>messages = [], input = [CHR 0x20, CHR 0x09, CHR 0x20], isLoading = False\<rparr>) = [] \<and>
   call (handleSubmit sampleParse asciiDecode () sampleToString 2
     \<lparr>messages = [], input = [CHR 0x20, CHR 0x09, CHR 0x20], isLoading = False\<rparr> JNull
     (Rejected NonError)) = None \<and>
   map_option (\<lambda>run. query (request run))
     (call (handleSubmit sampleParse asciiDecode () sampleToString 2
        \<lparr>messages = [], input = ''  ev safety '', isLoading = False\<rparr> JNull
        (Rejected NonError))) = Some ''ev safety''"
proof -
  have blank: "trim (input \<lparr>messages = [], input = [CHR 0x20, CHR 0x09, CHR 0x20], isLoading = False\<rparr>) = []"
    by (simp add: trim_def isWhiteSpace_def)
  have none: "call (handleSubmit sampleParse asciiDecode () sampleToString 2
     \<lparr>messages = [], input = [CHR 0x20, CHR 0x09, CHR 0x20], isLoading = False\<rparr> JNull
     (Rejected NonError)) = None"
    using handleSubmit_query [of "\<lparr>messages = [], input = [CHR 0x20, CHR 0x09, CHR 0x20], isLoading = False\<rparr>"
        sampleParse asciiDecode "()" sampleToString 2 JNull "Rejected NonError"] blank
    by blast
  have made: "call (handleSubmit sampleParse asciiDecode () sampleToString 2
        \<lparr>messages = [], input = ''  ev safety '', isLoading = False\<rparr> JNull
        (Rejected NonError)) =
      Some (streamQuery sampleParse asciiDecode () 2 ''  ev safety '' JNull (Rejected NonError))"
    by (simp add: handleSubmit_def guard_def trim_def isWhiteSpace_def Let_def streamQuery_def
          tryBody_def mkMessage_def handleMessage_def split: prod.splits)
  have "query (request (streamQuery sampleParse asciiDecode () 2 ''  ev safety '' JNull
          (Rejected NonError))) =
        trim (input \<lparr>messages = [], input = ''  ev safety '', isLoading = False\<rparr>)"
    using handleSubmit_query [of "\<lparr>messages = [], input = ''  ev safety '', isLoading = False\<rparr>"
        sampleParse asciiDecode "()" sampleToString 2 JNull "Rejected NonError"] made
    by blast
  then have sent: "query (request (streamQuery sampleParse asciiDecode () 2 ''  ev safety '' JNull
          (Rejected NonError))) = ''ev safety''"
    by (simp add: trim_def isWhiteSpace_def)
  show ?thesis
    by (intro conjI blank none) (simp add: made sent)
qed

text \<open>The loop body of \<open>handleSubmit\<close> does not throw on what \<open>streamQuery\<close> yields:
  every value is an object or an array, and reading \<open>type\<close> and \<open>content\<close> from it is safe.\<close>

lemma handleMessage_not_None:
  "inOp ''sessionId'' message = Some False \<Longrightarrow> handleMessage toStr message prev \<noteq> None"
  by (cases message) (auto simp: handleMessage_def split: option.splits)

lemma forAwait_through:
  "list_all (\<lambda>m. inOp ''sessionId'' m = Some False) ms \<Longrightarrow> snd (forAwait toStr ms prev)"
proof (induction ms arbitrary: prev)
  case Nil
  show ?case by simp
next
  case (Cons m ms)
  then obtain prev' where "handleMessage toStr m prev = Some prev'"
    using handleMessage_not_None [of m toStr prev] by auto
  with Cons show ?case by simp
qed

lemma forAwait_streamQuery_through:
  "snd (forAwait toStr (yielded (streamQuery parse decode decoder0 fuel q sid fetchResult)) prev)"
  by (rule forAwait_through [OF streamQuery_no_sessionId])

lemma filter_hasStatus_withoutStatus: "filter hasStatus (withoutStatus prev) = []"
  by (induction prev) (auto simp: withoutStatus_def hasStatus_def)

lemma typed_getProp_content: "typed message \<Longrightarrow> getProp message ''content'' \<noteq> None"
  by (cases message) (auto simp: typed_def split: option.splits)

text \<open>
  C10, as amended. An entry counts as a status entry when its \<open>status\<close> is truthy. After
  the handler of a \<open>status\<close>, \<open>content\<close> or \<open>error\<close> message, no entry but the last is a
  status entry, so the list has at most one, the entry just appended. The \<open>catch\<close> branch
  leaves none.
\<close>

theorem status_entry_last:
  assumes "typed message"
  shows "\<exists>msgs. handleMessage toStr message prev = Some msgs \<and> msgs \<noteq> [] \<and>
           filter hasStatus (butlast msgs) = [] \<and>
           length (filter hasStatus msgs) \<le> 1 \<and>
           filter hasStatus (catchBranch prev) = []"
proof -
  from assms obtain ty where ty: "getProp message ''type'' = Some (JString ty)"
    and known: "ty = ''status'' \<or> ty = ''content'' \<or> ty = ''error''"
    by (auto simp: typed_def)
  from typed_getProp_content [OF assms] obtain content
    where content: "getProp message ''content'' = Some content"
    by auto
  from known obtain e where msgs: "handleMessage toStr message prev = Some (withoutStatus prev @ [e])"
    by (auto simp: handleMessage_def ty content)
  have "length (filter hasStatus (withoutStatus prev @ [e])) \<le> 1"
    by (simp add: filter_hasStatus_withoutStatus)
  then show ?thesis
    by (simp add: msgs filter_hasStatus_withoutStatus catchBranch_def hasStatus_def statusOf_def)
qed

theorem status_entry_last_witness:
  "typed (JObject [(''type'', JString ''status''), (''content'', JString ''Searching'')]) \<and>
   handleMessage sampleToString
     (JObject [(''type'', JString ''status''), (''content'', JString ''Searching'')])
     [\<lparr>text' = JString ''ev safety'', isAI = False, status = None\<rparr>,
      \<lparr>text' = JString [], isAI = True, status = Some (JString ''Checking'')\<rparr>] =
   Some [\<lparr>text' = JString ''ev safety'', isAI = False, status = None\<rparr>,
         \<lparr>text' = JString [], isAI = True, status = Some (JString ''Searching'')\<rparr>] \<and>
   filter hasStatus (butlast
     [\<lparr>text' = JString ''ev safety'', isAI = False, status = None\<rparr>,
      \<lparr>text' = JString [], isAI = True, status = Some (JString ''Searching'')\<rparr>]) = []"
proof -
  have h: "typed (JObject [(''type'', JString ''status''), (''content'', JString ''Searching'')])"
    by (simp add: typed_def)
  have ev: "handleMessage sampleToString
     (JObject [(''type'', JString ''status''), (''content'', JString ''Searching'')])
     [\<lparr>text' = JString ''ev safety'', isAI = False, status = None\<rparr>,
      \<lparr>text' = JString [], isAI = True, status = Some (JString ''Checking'')\<rparr>] =
   Some [\<lparr>text' = JString ''ev safety'', isAI = False, status = None\<rparr>,
         \<lparr>text' = JString [], isAI = True, status = Some (JString ''Searching'')\<rparr>]"
    by (simp add: handleMessage_def withoutStatus_def statusOf_def)
  show ?thesis
    using status_entry_last [OF h, of sampleToString
        "[\<lparr>text' = JString ''ev safety'', isAI = False, status = None\<rparr>,
          \<lparr>text' = JString [], isAI = True, status = Some (JString ''Checking'')\<rparr>]"]
    unfolding ev
    by (intro conjI h refl) auto
qed

text \<open>
  C10, as stated. Two \<open>status\<close> messages with empty content arrive one after
  the other. Each handler appends an entry with \<open>status: ""\<close>; the filter keeps the first
  one, since \<open>!""\<close> is true. Two entries have their status set.
\<close>

theorem status_set_twice_counterexample:
  "\<not> length (filter (\<lambda>msg. status msg \<noteq> None)
        (fst (forAwait sampleToString
           [JObject [(''type'', JString ''status''), (''content'', JString [])],
            JObject [(''type'', JString ''status''), (''content'', JString [])]]
           [\<lparr>text' = JString ''ev safety'', isAI = False, status = None\<rparr>]))) \<le> 1"
  by (simp add: handleMessage_def withoutStatus_def statusOf_def)

section \<open>The component over time\<close>













end
